theory Spec2Isabelle
  imports Complex_Main "HOL-Library.Sublist"
begin

section \<open>Values shared by the three exercises\<close>

text \<open>
  The three modules (\<^verbatim>\<open>ex0/space_station.py\<close>, \<^verbatim>\<open>ex1/alien_contact.py\<close>,
  \<^verbatim>\<open>ex2/space_crew.py\<close>) declare pydantic models. A Python \<^verbatim>\<open>int\<close> is an
  \<^typ>\<open>int\<close>, a \<^verbatim>\<open>str\<close> a \<^typ>\<open>string\<close> (one character for each code
  point, so that \<open>length\<close> is \<^verbatim>\<open>len\<close>), a finite \<^verbatim>\<open>float\<close> the
  rational number it denotes (the code only compares floats with integer bounds), and a
  \<^verbatim>\<open>datetime\<close> a point on an integer time line. The clock read by
  \<^verbatim>\<open>datetime.now()\<close> is an explicit argument \<open>now\<close> of every constructor.
\<close>

type_synonym datetime = int

text \<open>
  The keyword arguments of \<^verbatim>\<open>Field(...)\<close> that the models use. A violated
  constraint is reported with the bound it was declared with.
\<close>

datatype constraint = min_length nat | max_length nat | ge rat | le rat

text \<open>
  One entry of \<^verbatim>\<open>ValidationError.errors()\<close>: either a field (its name is the
  entry's \<^verbatim>\<open>loc\<close>) broke a declared constraint, or the model validator raised
  \<^verbatim>\<open>ValueError(msg)\<close>.
\<close>

datatype ErrorDetails = constraint_error string constraint | value_error string

type_synonym ValidationError = "ErrorDetails list"

text \<open>\<^verbatim>\<open>Field(min_length=lo, max_length=hi)\<close> on a string or a list of length \<open>n\<close>.\<close>

definition Field_length :: "nat \<Rightarrow> nat \<Rightarrow> nat \<Rightarrow> constraint option" where
  "Field_length lo hi n =
     (if n < lo then Some (min_length lo)
      else if hi < n then Some (max_length hi)
      else None)"

text \<open>\<^verbatim>\<open>Field(ge=lo, le=hi)\<close> on a number.\<close>

definition Field_range :: "rat \<Rightarrow> rat \<Rightarrow> rat \<Rightarrow> constraint option" where
  "Field_range lo hi x =
     (if x < lo then Some (ge lo)
      else if hi < x then Some (le hi)
      else None)"

text \<open>\<^verbatim>\<open>str | None = Field(default=None, max_length=hi)\<close>: \<^verbatim>\<open>None\<close> always passes.\<close>

definition Field_optional_max_length :: "nat \<Rightarrow> string option \<Rightarrow> constraint option" where
  "Field_optional_max_length hi v =
     (case v of None \<Rightarrow> None
      | Some s \<Rightarrow> if hi < length s then Some (max_length hi) else None)"

text \<open>A field declared with a type or a default only.\<close>

definition no_constraint :: "'k \<Rightarrow> constraint option" where
  "no_constraint kw = None"

text \<open>
  Field validation walks the fields in declaration order and collects one error for each
  field whose constraint is broken.
\<close>

definition validate_fields ::
  "(string \<times> ('k \<Rightarrow> constraint option)) list \<Rightarrow> 'k \<Rightarrow> ValidationError" where
  "validate_fields fields kw =
     concat (map (\<lambda>(loc, chk). case chk kw of None \<Rightarrow> [] | Some c \<Rightarrow> [constraint_error loc c])
                 fields)"

text \<open>The fields of a table that an input violates, by name, in declaration order.\<close>

definition violated_fields :: "(string \<times> ('k \<Rightarrow> constraint option)) list \<Rightarrow> 'k \<Rightarrow> string list" where
  "violated_fields fields kw = map fst (filter (\<lambda>(loc, chk). chk kw \<noteq> None) fields)"

section \<open>ex1: the duration formatter\<close>

text \<open>\<^verbatim>\<open>str(n)\<close> for a Python integer, as the f-strings of \<^verbatim>\<open>convert_duration\<close> use it.\<close>

function str_nat :: "nat \<Rightarrow> string" where
  "str_nat n =
     (if n < 10 then [''0123456789'' ! n]
      else str_nat (n div 10) @ [''0123456789'' ! (n mod 10)])"
  by pat_completeness auto
termination
  by (relation "measure id") auto

declare str_nat.simps [simp del]

definition str_int :: "int \<Rightarrow> string" where
  "str_int i = (if i < 0 then CHR ''-'' # str_nat (nat (- i)) else str_nat (nat i))"

text \<open>
  \<^verbatim>\<open>convert_duration\<close>, with the local \<^verbatim>\<open>res\<close> and \<^verbatim>\<open>plurial\<close> rebound as the
  assignments of the source rebind them. \<^verbatim>\<open>//\<close> and \<^verbatim>\<open>%\<close> with the positive divisor
  60 are \<open>div\<close> and \<open>mod\<close> on \<^typ>\<open>int\<close>.
\<close>

definition convert_duration :: "int \<Rightarrow> string" where
  "convert_duration duration =
     (let res = '''';
          res =
            (if duration \<ge> 60 then
               (let plurial = '''';
                    plurial = (if duration \<ge> 120 then ''s'' else plurial);
                    res = res @ str_int (duration div 60) @ '' hour'' @ plurial
                in if duration mod 60 \<noteq> 0 then res @ '' '' else res)
             else res)
      in if duration mod 60 = 0 then res
         else
           (let plurial = '''';
                plurial = (if duration mod 60 \<noteq> 1 then ''s'' else plurial)
            in res @ str_int (duration mod 60) @ '' minute'' @ plurial))"

text \<open>
  The phrase as the specification words it: a count followed by its unit word, singular
  exactly when the count is 1.
\<close>

definition spec_unit_phrase :: "int \<Rightarrow> string \<Rightarrow> string" where
  "spec_unit_phrase n unit = str_int n @ '' '' @ unit @ (if n = 1 then '''' else ''s'')"

section \<open>ex0: the space station\<close>

record SpaceStation =
  station_id :: string
  name :: string
  crew_size :: int
  power_level :: rat
  oxygen_level :: rat
  last_maintenance :: datetime
  is_operational :: bool
  "notes" :: "string option"

text \<open>
  The keyword arguments of \<^verbatim>\<open>SpaceStation(...)\<close>. A field with a default may be
  omitted (\<open>None\<close>); for \<^verbatim>\<open>notes\<close>, whose default is \<^verbatim>\<open>None\<close>, omitting it
  and passing \<^verbatim>\<open>None\<close> are the same.
\<close>

record SpaceStation_kwargs =
  ss_station_id :: string
  ss_name :: string
  ss_crew_size :: int
  ss_power_level :: rat
  ss_oxygen_level :: rat
  ss_last_maintenance :: "datetime option"
  ss_is_operational :: "bool option"
  ss_notes :: "string option"

definition SpaceStation_fields :: "(string \<times> (SpaceStation_kwargs \<Rightarrow> constraint option)) list" where
  "SpaceStation_fields =
     [(''station_id'', \<lambda>kw. Field_length 3 10 (length (ss_station_id kw))),
      (''name'', \<lambda>kw. Field_length 1 50 (length (ss_name kw))),
      (''crew_size'', \<lambda>kw. Field_range 1 20 (of_int (ss_crew_size kw))),
      (''power_level'', \<lambda>kw. Field_range 0 100 (ss_power_level kw)),
      (''oxygen_level'', \<lambda>kw. Field_range 0 100 (ss_oxygen_level kw)),
      (''last_maintenance'', no_constraint),
      (''is_operational'', no_constraint),
      (''notes'', \<lambda>kw. Field_optional_max_length 200 (ss_notes kw))]"

text \<open>The instance assembled from the keyword arguments, defaults filled in.\<close>

definition SpaceStation_instance :: "datetime \<Rightarrow> SpaceStation_kwargs \<Rightarrow> SpaceStation" where
  "SpaceStation_instance now kw =
     \<lparr>station_id = ss_station_id kw,
      name = ss_name kw,
      crew_size = ss_crew_size kw,
      power_level = ss_power_level kw,
      oxygen_level = ss_oxygen_level kw,
      last_maintenance = (case ss_last_maintenance kw of None \<Rightarrow> now | Some t \<Rightarrow> t),
      is_operational = (case ss_is_operational kw of None \<Rightarrow> True | Some b \<Rightarrow> b),
      notes = ss_notes kw\<rparr>"

text \<open>\<^verbatim>\<open>SpaceStation(**kw)\<close>: the model has no validator of its own.\<close>

definition new_SpaceStation :: "datetime \<Rightarrow> SpaceStation_kwargs \<Rightarrow> ValidationError + SpaceStation" where
  "new_SpaceStation now kw =
     (let errors = validate_fields SpaceStation_fields kw
      in if errors \<noteq> [] then Inl errors else Inr (SpaceStation_instance now kw))"

text \<open>
  \<^verbatim>\<open>display_station\<close> returns the printed lines. \<^verbatim>\<open>print\<close> of a float goes
  through Python's shortest-repr algorithm, which is taken as the parameter
  \<open>str_float\<close>.
\<close>

definition display_station :: "(rat \<Rightarrow> string) \<Rightarrow> SpaceStation \<Rightarrow> string list" where
  "display_station str_float station =
     [''ID: '' @ station_id station,
      ''Name: '' @ SpaceStation.name station,
      ''Crew: '' @ str_int (crew_size station),
      ''Power: '' @ str_float (power_level station),
      ''Oxygen: '' @ str_float (oxygen_level station),
      ''Status: '' @ (if is_operational station then ''Non '' else '''') @ ''Operational'']"

text \<open>The Station schema as the specification declares it: bounds only, no rule.\<close>

definition Station_valid :: "SpaceStation \<Rightarrow> bool" where
  "Station_valid s \<longleftrightarrow>
     3 \<le> length (station_id s) \<and> length (station_id s) \<le> 10 \<and>
     1 \<le> length (SpaceStation.name s) \<and> length (SpaceStation.name s) \<le> 50 \<and>
     1 \<le> crew_size s \<and> crew_size s \<le> 20 \<and>
     0 \<le> power_level s \<and> power_level s \<le> 100 \<and>
     0 \<le> oxygen_level s \<and> oxygen_level s \<le> 100 \<and>
     (case notes s of None \<Rightarrow> True | Some n \<Rightarrow> length n \<le> 200)"

section \<open>ex1: the alien contact\<close>

datatype ContactType = radio | visual | physical | telepathic

record AlienContact =
  contact_id :: string
  timestamp :: datetime
  location :: string
  contact_type :: ContactType
  signal_strength :: rat
  duration_minutes :: int
  witness_count :: int
  message_received :: "string option"
  is_verified :: bool

record AlienContact_kwargs =
  ac_contact_id :: string
  ac_timestamp :: "datetime option"
  ac_location :: string
  ac_contact_type :: ContactType
  ac_signal_strength :: rat
  ac_duration_minutes :: int
  ac_witness_count :: int
  ac_message_received :: "string option"
  ac_is_verified :: "bool option"

definition AlienContact_fields :: "(string \<times> (AlienContact_kwargs \<Rightarrow> constraint option)) list" where
  "AlienContact_fields =
     [(''contact_id'', \<lambda>kw. Field_length 5 15 (length (ac_contact_id kw))),
      (''timestamp'', no_constraint),
      (''location'', \<lambda>kw. Field_length 3 100 (length (ac_location kw))),
      (''contact_type'', no_constraint),
      (''signal_strength'', \<lambda>kw. Field_range 0 10 (ac_signal_strength kw)),
      (''duration_minutes'', \<lambda>kw. Field_range 1 1440 (of_int (ac_duration_minutes kw))),
      (''witness_count'', \<lambda>kw. Field_range 1 100 (of_int (ac_witness_count kw))),
      (''message_received'', no_constraint),
      (''is_verified'', no_constraint)]"

definition AlienContact_instance :: "datetime \<Rightarrow> AlienContact_kwargs \<Rightarrow> AlienContact" where
  "AlienContact_instance now kw =
     \<lparr>contact_id = ac_contact_id kw,
      timestamp = (case ac_timestamp kw of None \<Rightarrow> now | Some t \<Rightarrow> t),
      location = ac_location kw,
      contact_type = ac_contact_type kw,
      signal_strength = ac_signal_strength kw,
      duration_minutes = ac_duration_minutes kw,
      witness_count = ac_witness_count kw,
      message_received = ac_message_received kw,
      is_verified = (case ac_is_verified kw of None \<Rightarrow> False | Some b \<Rightarrow> b)\<rparr>"

text \<open>
  \<^verbatim>\<open>AlienContact.check_model\<close>, the \<^verbatim>\<open>mode="after"\<close> validator: the \<^verbatim>\<open>elif\<close>
  chain sets \<^verbatim>\<open>error\<close>, and a non-empty \<^verbatim>\<open>error\<close> is raised as
  \<^verbatim>\<open>ValueError\<close>, which pydantic reports as the only entry of the
  \<^verbatim>\<open>ValidationError\<close>.
\<close>

definition AlienContact_check_model :: "AlienContact \<Rightarrow> ValidationError + AlienContact" where
  "AlienContact_check_model self =
     (let error = '''';
          condition1 = (\<not> is_verified self);
          condition2 = (witness_count self < 3);
          error =
            (if length (contact_id self) < 2 \<or> take 2 (contact_id self) \<noteq> ''AC'' then
               ''Contact ID must start with 'AC' (Alien Contact)''
             else if contact_type self = physical \<and> condition1 then
               ''physical contact reports must be verified''
             else if contact_type self = telepathic \<and> condition2 then
               ''telepathic contact requires at least 3 witnesses''
             else if signal_strength self > 7 \<and> message_received self = None then
               ''Strong signals (> 7.0) should include received messages''
             else error)
      in if error \<noteq> '''' then Inl [value_error error] else Inr self)"

text \<open>
  \<^verbatim>\<open>AlienContact(**kw)\<close>: the validator runs on the assembled instance, and only when
  no field broke its constraint.
\<close>

definition new_AlienContact :: "datetime \<Rightarrow> AlienContact_kwargs \<Rightarrow> ValidationError + AlienContact" where
  "new_AlienContact now kw =
     (let errors = validate_fields AlienContact_fields kw
      in if errors \<noteq> [] then Inl errors
         else AlienContact_check_model (AlienContact_instance now kw))"

text \<open>The Contact schema as the specification declares it: the bounds of the fields,\<close>

definition Contact_fields_valid :: "AlienContact \<Rightarrow> bool" where
  "Contact_fields_valid c \<longleftrightarrow>
     5 \<le> length (contact_id c) \<and> length (contact_id c) \<le> 15 \<and>
     3 \<le> length (location c) \<and> length (location c) \<le> 100 \<and>
     0 \<le> signal_strength c \<and> signal_strength c \<le> 10 \<and>
     1 \<le> duration_minutes c \<and> duration_minutes c \<le> 1440 \<and>
     1 \<le> witness_count c \<and> witness_count c \<le> 100"

text \<open>and its four cross-field rules with their messages, in the order it gives them.\<close>

definition Contact_rules :: "((AlienContact \<Rightarrow> bool) \<times> string) list" where
  "Contact_rules =
     [(\<lambda>c. prefix ''AC'' (contact_id c),
       ''Contact ID must start with 'AC' (Alien Contact)''),
      (\<lambda>c. contact_type c = physical \<longrightarrow> is_verified c,
       ''physical contact reports must be verified''),
      (\<lambda>c. contact_type c = telepathic \<longrightarrow> witness_count c \<ge> 3,
       ''telepathic contact requires at least 3 witnesses''),
      (\<lambda>c. signal_strength c > 7 \<longrightarrow> message_received c \<noteq> None,
       ''Strong signals (> 7.0) should include received messages'')]"

section \<open>ex2: the space mission and its crew\<close>

datatype Rank = cadet | officer | lieutenant | captain | commander

record CrewMember =
  member_id :: string
  name :: string
  rank :: Rank
  age :: int
  specialization :: string
  years_experience :: int
  is_active :: bool

record CrewMember_kwargs =
  cm_member_id :: string
  cm_name :: string
  cm_rank :: Rank
  cm_age :: int
  cm_specialization :: string
  cm_years_experience :: int
  cm_is_active :: "bool option"

definition CrewMember_fields :: "(string \<times> (CrewMember_kwargs \<Rightarrow> constraint option)) list" where
  "CrewMember_fields =
     [(''member_id'', \<lambda>kw. Field_length 3 10 (length (cm_member_id kw))),
      (''name'', \<lambda>kw. Field_length 2 50 (length (cm_name kw))),
      (''rank'', no_constraint),
      (''age'', \<lambda>kw. Field_range 18 80 (of_int (cm_age kw))),
      (''specialization'', \<lambda>kw. Field_length 3 30 (length (cm_specialization kw))),
      (''years_experience'', \<lambda>kw. Field_range 0 50 (of_int (cm_years_experience kw))),
      (''is_active'', no_constraint)]"

definition CrewMember_instance :: "CrewMember_kwargs \<Rightarrow> CrewMember" where
  "CrewMember_instance kw =
     \<lparr>member_id = cm_member_id kw,
      name = cm_name kw,
      rank = cm_rank kw,
      age = cm_age kw,
      specialization = cm_specialization kw,
      years_experience = cm_years_experience kw,
      is_active = (case cm_is_active kw of None \<Rightarrow> True | Some b \<Rightarrow> b)\<rparr>"

definition new_CrewMember :: "CrewMember_kwargs \<Rightarrow> ValidationError + CrewMember" where
  "new_CrewMember kw =
     (let errors = validate_fields CrewMember_fields kw
      in if errors \<noteq> [] then Inl errors else Inr (CrewMember_instance kw))"

text \<open>\<^verbatim>\<open>not_min_rank\<close>: the loop carries the two counters.\<close>

definition not_min_rank :: "CrewMember list \<Rightarrow> bool" where
  "not_min_rank crew =
     (let (nb_commander, nb_captain) =
            fold (\<lambda>person (nb_commander, nb_captain).
                    if rank person = commander then (nb_commander + 1, nb_captain)
                    else if rank person = captain then (nb_commander, nb_captain + 1)
                    else (nb_commander, nb_captain))
                 crew (0 :: int, 0 :: int)
      in nb_commander = 0 \<and> nb_captain = 0)"

text \<open>\<^verbatim>\<open>active_crew\<close>: the loop returns at the first inactive member.\<close>

fun active_crew :: "CrewMember list \<Rightarrow> bool" where
  "active_crew [] = True"
| "active_crew (person # crew) = (if \<not> is_active person then False else active_crew crew)"

text \<open>
  \<^verbatim>\<open>experience_crew\<close>: \<^verbatim>\<open>len(crew) / 2\<close> is Python's true division, exact on
  the halves of list lengths, so the comparison is one of rationals.
\<close>

definition experience_crew :: "CrewMember list \<Rightarrow> bool" where
  "experience_crew crew =
     (let nb_experience =
            fold (\<lambda>person nb_experience.
                    if years_experience person > 5 then nb_experience + 1 else nb_experience)
                 crew (0 :: int)
      in (of_int nb_experience :: rat) \<ge> of_nat (length crew) / 2)"

record SpaceMission =
  mission_id :: string
  mission_name :: string
  destination :: string
  lauch_date :: datetime
  duration_days :: int
  crew :: "CrewMember list"
  mission_status :: string
  budget_millions :: rat

text \<open>
  The crew is passed as a list of \<^verbatim>\<open>CrewMember\<close> instances, as \<^verbatim>\<open>main\<close> does;
  pydantic takes instances as they are, and checks the length of the list only.
\<close>

record SpaceMission_kwargs =
  sm_mission_id :: string
  sm_mission_name :: string
  sm_destination :: string
  sm_lauch_date :: "datetime option"
  sm_duration_days :: int
  sm_crew :: "CrewMember list"
  sm_mission_status :: "string option"
  sm_budget_millions :: rat

definition SpaceMission_fields :: "(string \<times> (SpaceMission_kwargs \<Rightarrow> constraint option)) list" where
  "SpaceMission_fields =
     [(''mission_id'', \<lambda>kw. Field_length 5 15 (length (sm_mission_id kw))),
      (''mission_name'', \<lambda>kw. Field_length 3 100 (length (sm_mission_name kw))),
      (''destination'', \<lambda>kw. Field_length 3 50 (length (sm_destination kw))),
      (''lauch_date'', no_constraint),
      (''duration_days'', \<lambda>kw. Field_range 1 3650 (of_int (sm_duration_days kw))),
      (''crew'', \<lambda>kw. Field_length 1 12 (length (sm_crew kw))),
      (''mission_status'', no_constraint),
      (''budget_millions'', \<lambda>kw. Field_range 1 10000 (sm_budget_millions kw))]"

definition SpaceMission_instance :: "datetime \<Rightarrow> SpaceMission_kwargs \<Rightarrow> SpaceMission" where
  "SpaceMission_instance now kw =
     \<lparr>mission_id = sm_mission_id kw,
      mission_name = sm_mission_name kw,
      destination = sm_destination kw,
      lauch_date = (case sm_lauch_date kw of None \<Rightarrow> now | Some t \<Rightarrow> t),
      duration_days = sm_duration_days kw,
      crew = sm_crew kw,
      mission_status = (case sm_mission_status kw of None \<Rightarrow> ''planned'' | Some s \<Rightarrow> s),
      budget_millions = sm_budget_millions kw\<rparr>"

text \<open>\<^verbatim>\<open>SpaceMission.check_model\<close>, the \<^verbatim>\<open>mode="after"\<close> validator.\<close>

definition SpaceMission_check_model :: "SpaceMission \<Rightarrow> ValidationError + SpaceMission" where
  "SpaceMission_check_model self =
     (let error = '''';
          error =
            (if length (mission_id self) = 0 \<or> mission_id self ! 0 \<noteq> CHR ''M'' then
               ''Mission ID must start with 'M'' @ [CHR 0x27]
             else if not_min_rank (crew self) then
               ''Must have at least one Commander or Captain''
             else if duration_days self > 365 \<and> \<not> experience_crew (crew self) then
               (let error = ''Long missions (> 365 days) ''
                in error @ ''need 50% experienced crew (5+ years)'')
             else if \<not> active_crew (crew self) then
               ''All crew members must be active''
             else error)
      in if error \<noteq> '''' then Inl [value_error error] else Inr self)"

definition new_SpaceMission :: "datetime \<Rightarrow> SpaceMission_kwargs \<Rightarrow> ValidationError + SpaceMission" where
  "new_SpaceMission now kw =
     (let errors = validate_fields SpaceMission_fields kw
      in if errors \<noteq> [] then Inl errors
         else SpaceMission_check_model (SpaceMission_instance now kw))"

text \<open>The Crew-Member schema as the specification declares it: bounds only, no rule.\<close>

definition Crew_Member_valid :: "CrewMember \<Rightarrow> bool" where
  "Crew_Member_valid p \<longleftrightarrow>
     3 \<le> length (member_id p) \<and> length (member_id p) \<le> 10 \<and>
     2 \<le> length (CrewMember.name p) \<and> length (CrewMember.name p) \<le> 50 \<and>
     18 \<le> age p \<and> age p \<le> 80 \<and>
     3 \<le> length (specialization p) \<and> length (specialization p) \<le> 30 \<and>
     0 \<le> years_experience p \<and> years_experience p \<le> 50"

text \<open>The Mission schema as the specification declares it: the bounds of the fields,\<close>

definition Mission_fields_valid :: "SpaceMission \<Rightarrow> bool" where
  "Mission_fields_valid m \<longleftrightarrow>
     5 \<le> length (mission_id m) \<and> length (mission_id m) \<le> 15 \<and>
     3 \<le> length (mission_name m) \<and> length (mission_name m) \<le> 100 \<and>
     3 \<le> length (destination m) \<and> length (destination m) \<le> 50 \<and>
     1 \<le> duration_days m \<and> duration_days m \<le> 3650 \<and>
     1 \<le> length (crew m) \<and> length (crew m) \<le> 12 \<and>
     1 \<le> budget_millions m \<and> budget_millions m \<le> 10000"

text \<open>and its four cross-field rules with their messages, in the order it gives them.\<close>

definition Mission_rules :: "((SpaceMission \<Rightarrow> bool) \<times> string) list" where
  "Mission_rules =
     [(\<lambda>m. prefix ''M'' (mission_id m),
       ''Mission ID must start with 'M'' @ [CHR 0x27]),
      (\<lambda>m. \<exists>p \<in> set (crew m). rank p = commander \<or> rank p = captain,
       ''Must have at least one Commander or Captain''),
      (\<lambda>m. duration_days m > 365 \<longrightarrow>
            length (crew m) \<le> 2 * length (filter (\<lambda>p. years_experience p > 5) (crew m)),
       ''Long missions (> 365 days) need 50% experienced crew (5+ years)''),
      (\<lambda>m. \<forall>p \<in> set (crew m). is_active p,
       ''All crew members must be active'')]"

text \<open>
  A record satisfies an ordered rule list when every predicate of the list holds of it;
  rule \<open>k\<close> is the first failing one when it fails and all rules before it hold.
\<close>

definition rules_hold :: "(('r \<Rightarrow> bool) \<times> string) list \<Rightarrow> 'r \<Rightarrow> bool" where
  "rules_hold rules r \<longleftrightarrow> list_all (\<lambda>(p, msg). p r) rules"

definition first_failing :: "(('r \<Rightarrow> bool) \<times> string) list \<Rightarrow> 'r \<Rightarrow> nat \<Rightarrow> bool" where
  "first_failing rules r k \<longleftrightarrow>
     k < length rules \<and> \<not> fst (rules ! k) r \<and> list_all (\<lambda>(p, msg). p r) (take k rules)"

text \<open>
  The declared bounds of each schema, field by field, as the specification lists them,
  read on the supplied values. Each entry pairs the name of a field with the condition
  under which its value is in bounds; fields without a bound have no entry.
\<close>

definition Station_field_bounds :: "(string \<times> (SpaceStation_kwargs \<Rightarrow> bool)) list" where
  "Station_field_bounds =
     [(''station_id'', \<lambda>kw. 3 \<le> length (ss_station_id kw) \<and> length (ss_station_id kw) \<le> 10),
      (''name'', \<lambda>kw. 1 \<le> length (ss_name kw) \<and> length (ss_name kw) \<le> 50),
      (''crew_size'', \<lambda>kw. 1 \<le> ss_crew_size kw \<and> ss_crew_size kw \<le> 20),
      (''power_level'', \<lambda>kw. 0 \<le> ss_power_level kw \<and> ss_power_level kw \<le> 100),
      (''oxygen_level'', \<lambda>kw. 0 \<le> ss_oxygen_level kw \<and> ss_oxygen_level kw \<le> 100),
      (''notes'', \<lambda>kw. case ss_notes kw of None \<Rightarrow> True | Some n \<Rightarrow> length n \<le> 200)]"

definition Contact_field_bounds :: "(string \<times> (AlienContact_kwargs \<Rightarrow> bool)) list" where
  "Contact_field_bounds =
     [(''contact_id'', \<lambda>kw. 5 \<le> length (ac_contact_id kw) \<and> length (ac_contact_id kw) \<le> 15),
      (''location'', \<lambda>kw. 3 \<le> length (ac_location kw) \<and> length (ac_location kw) \<le> 100),
      (''signal_strength'', \<lambda>kw. 0 \<le> ac_signal_strength kw \<and> ac_signal_strength kw \<le> 10),
      (''duration_minutes'', \<lambda>kw. 1 \<le> ac_duration_minutes kw \<and> ac_duration_minutes kw \<le> 1440),
      (''witness_count'', \<lambda>kw. 1 \<le> ac_witness_count kw \<and> ac_witness_count kw \<le> 100)]"

definition Crew_Member_field_bounds :: "(string \<times> (CrewMember_kwargs \<Rightarrow> bool)) list" where
  "Crew_Member_field_bounds =
     [(''member_id'', \<lambda>kw. 3 \<le> length (cm_member_id kw) \<and> length (cm_member_id kw) \<le> 10),
      (''name'', \<lambda>kw. 2 \<le> length (cm_name kw) \<and> length (cm_name kw) \<le> 50),
      (''age'', \<lambda>kw. 18 \<le> cm_age kw \<and> cm_age kw \<le> 80),
      (''specialization'',
       \<lambda>kw. 3 \<le> length (cm_specialization kw) \<and> length (cm_specialization kw) \<le> 30),
      (''years_experience'', \<lambda>kw. 0 \<le> cm_years_experience kw \<and> cm_years_experience kw \<le> 50)]"

definition Mission_field_bounds :: "(string \<times> (SpaceMission_kwargs \<Rightarrow> bool)) list" where
  "Mission_field_bounds =
     [(''mission_id'', \<lambda>kw. 5 \<le> length (sm_mission_id kw) \<and> length (sm_mission_id kw) \<le> 15),
      (''mission_name'',
       \<lambda>kw. 3 \<le> length (sm_mission_name kw) \<and> length (sm_mission_name kw) \<le> 100),
      (''destination'', \<lambda>kw. 3 \<le> length (sm_destination kw) \<and> length (sm_destination kw) \<le> 50),
      (''duration_days'', \<lambda>kw. 1 \<le> sm_duration_days kw \<and> sm_duration_days kw \<le> 3650),
      (''crew'', \<lambda>kw. 1 \<le> length (sm_crew kw) \<and> length (sm_crew kw) \<le> 12),
      (''budget_millions'', \<lambda>kw. 1 \<le> sm_budget_millions kw \<and> sm_budget_millions kw \<le> 10000)]"

text \<open>
  Field \<open>f\<close> is the only one out of bounds: its own bound fails on the input, and the
  bound of every other field holds.
\<close>

definition only_violation :: "(string \<times> ('k \<Rightarrow> bool)) list \<Rightarrow> 'k \<Rightarrow> string \<Rightarrow> bool" where
  "only_violation bounds kw f \<longleftrightarrow>
     (\<exists>(g, ok) \<in> set bounds. g = f \<and> \<not> ok kw) \<and>
     (\<forall>(g, ok) \<in> set bounds. g \<noteq> f \<longrightarrow> ok kw)"

text \<open>An error list made of field-constraint errors only.\<close>

definition only_constraint_errors :: "ValidationError \<Rightarrow> bool" where
  "only_constraint_errors errors \<longleftrightarrow>
     errors \<noteq> [] \<and> list_all (\<lambda>e. case e of constraint_error loc c \<Rightarrow> True | value_error msg \<Rightarrow> False) errors"

section \<open>Sample inputs\<close>

text \<open>
  Inputs in the style of the three \<^verbatim>\<open>main\<close> routines, with float values that are
  exact in binary.
\<close>

definition sample_station :: SpaceStation_kwargs where
  "sample_station =
     \<lparr>ss_station_id = ''ISS001'',
      ss_name = ''International Space Station'',
      ss_crew_size = 6,
      ss_power_level = 171 / 2,
      ss_oxygen_level = 369 / 4,
      ss_last_maintenance = None,
      ss_is_operational = Some True,
      ss_notes = None\<rparr>"

definition sample_contact :: AlienContact_kwargs where
  "sample_contact =
     \<lparr>ac_contact_id = ''AC_2024_001'',
      ac_timestamp = None,
      ac_location = ''Area 51, Nevada'',
      ac_contact_type = radio,
      ac_signal_strength = 17 / 2,
      ac_duration_minutes = 45,
      ac_witness_count = 5,
      ac_message_received = Some ''Greetings from Zeta Reticuli'',
      ac_is_verified = None\<rparr>"

definition sample_member :: CrewMember_kwargs where
  "sample_member =
     \<lparr>cm_member_id = ''Person005'',
      cm_name = ''Sarah Connor'',
      cm_rank = commander,
      cm_age = 37,
      cm_specialization = ''Mission Command'',
      cm_years_experience = 5,
      cm_is_active = None\<rparr>"

definition sample_crew :: "CrewMember list" where
  "sample_crew =
     [CrewMember_instance sample_member,
      CrewMember_instance
        (sample_member\<lparr>cm_member_id := ''Person006'', cm_name := ''John Smith'',
           cm_rank := lieutenant, cm_age := 63, cm_specialization := ''Navigation'',
           cm_years_experience := 17\<rparr>),
      CrewMember_instance
        (sample_member\<lparr>cm_member_id := ''Person007'', cm_name := ''Alice Johnson'',
           cm_rank := officer, cm_age := 58, cm_specialization := ''Engineering'',
           cm_years_experience := 20\<rparr>)]"

definition sample_mission :: SpaceMission_kwargs where
  "sample_mission =
     \<lparr>sm_mission_id = ''M2024_MARS'',
      sm_mission_name = ''Mars Colony Establishment'',
      sm_destination = ''Mars'',
      sm_lauch_date = None,
      sm_duration_days = 900,
      sm_crew = sample_crew,
      sm_mission_status = None,
      sm_budget_millions = 2500\<rparr>"

section \<open>Field validation\<close>

lemma validate_fields_empty:
  "validate_fields tbl kw = [] \<longleftrightarrow> (\<forall>(loc, chk) \<in> set tbl. chk kw = None)"
  by (induction tbl) (auto simp: validate_fields_def split: option.splits)

lemma violated_fields_empty:
  "violated_fields tbl kw = [] \<longleftrightarrow> (\<forall>(loc, chk) \<in> set tbl. chk kw = None)"
  by (induction tbl) (auto simp: violated_fields_def)

lemma validate_fields_Cons:
  "validate_fields ((loc, chk) # tbl) kw =
     (case chk kw of None \<Rightarrow> [] | Some c \<Rightarrow> [constraint_error loc c]) @ validate_fields tbl kw"
  by (simp add: validate_fields_def)

lemma violated_fields_Cons:
  "violated_fields ((loc, chk) # tbl) kw =
     (if chk kw \<noteq> None then [loc] else []) @ violated_fields tbl kw"
  by (simp add: violated_fields_def)

lemma validate_fields_single:
  "violated_fields tbl kw = [f] \<Longrightarrow> \<exists>c. validate_fields tbl kw = [constraint_error f c]"
proof (induction tbl)
  case Nil
  then show ?case by (simp add: violated_fields_def)
next
  case (Cons a tbl)
  obtain loc chk where a: "a = (loc, chk)" by (cases a)
  show ?case
  proof (cases "chk kw")
    case None
    with Cons a show ?thesis by (simp add: validate_fields_Cons violated_fields_Cons)
  next
    case (Some c)
    with Cons.prems a have "loc = f" and "violated_fields tbl kw = []"
      by (simp_all add: violated_fields_Cons)
    then have "validate_fields tbl kw = []"
      by (simp add: validate_fields_empty violated_fields_empty)
    with Some a \<open>loc = f\<close> show ?thesis by (simp add: validate_fields_Cons)
  qed
qed

lemma Field_length_None: "Field_length lo hi n = None \<longleftrightarrow> lo \<le> n \<and> n \<le> hi"
  by (auto simp: Field_length_def)

lemma Field_range_None: "Field_range lo hi x = None \<longleftrightarrow> lo \<le> x \<and> x \<le> hi"
  by (auto simp: Field_range_def)

lemma Field_range_int_None:
  "Field_range (of_int lo) (of_int hi) (of_int x) = None \<longleftrightarrow> lo \<le> x \<and> x \<le> hi"
  by (simp add: Field_range_None)

lemma Field_optional_max_length_None:
  "Field_optional_max_length hi v = None \<longleftrightarrow> (case v of None \<Rightarrow> True | Some s \<Rightarrow> length s \<le> hi)"
  by (auto simp: Field_optional_max_length_def split: option.splits)

lemma SpaceStation_fields_ok:
  "validate_fields SpaceStation_fields kw = [] \<longleftrightarrow> Station_valid (SpaceStation_instance now kw)"
  using Field_range_int_None [of 1 20 "ss_crew_size kw"]
  by (simp add: validate_fields_empty SpaceStation_fields_def Station_valid_def
      SpaceStation_instance_def Field_length_None Field_range_None
      Field_optional_max_length_None no_constraint_def)

lemma AlienContact_fields_ok:
  "validate_fields AlienContact_fields kw = [] \<longleftrightarrow> Contact_fields_valid (AlienContact_instance now kw)"
  using Field_range_int_None [of 1 1440 "ac_duration_minutes kw"]
    Field_range_int_None [of 1 100 "ac_witness_count kw"]
  by (simp add: validate_fields_empty AlienContact_fields_def Contact_fields_valid_def
      AlienContact_instance_def Field_length_None Field_range_None no_constraint_def)

lemma CrewMember_fields_ok:
  "validate_fields CrewMember_fields kw = [] \<longleftrightarrow> Crew_Member_valid (CrewMember_instance kw)"
  using Field_range_int_None [of 18 80 "cm_age kw"]
    Field_range_int_None [of 0 50 "cm_years_experience kw"]
  by (simp add: validate_fields_empty CrewMember_fields_def Crew_Member_valid_def
      CrewMember_instance_def Field_length_None Field_range_None no_constraint_def)

lemma SpaceMission_fields_ok:
  "validate_fields SpaceMission_fields kw = [] \<longleftrightarrow> Mission_fields_valid (SpaceMission_instance now kw)"
  using Field_range_int_None [of 1 3650 "sm_duration_days kw"]
  by (simp add: validate_fields_empty SpaceMission_fields_def Mission_fields_valid_def
      SpaceMission_instance_def Field_length_None Field_range_None no_constraint_def)

section \<open>The model validators and the crew predicates\<close>

lemma prefix_AC: "prefix ''AC'' s \<longleftrightarrow> \<not> (length s < 2 \<or> take 2 s \<noteq> ''AC'')"
proof
  assume "prefix ''AC'' s"
  then obtain zs where "s = ''AC'' @ zs" by (auto simp: prefix_def)
  then show "\<not> (length s < 2 \<or> take 2 s \<noteq> ''AC'')" by simp
next
  assume "\<not> (length s < 2 \<or> take 2 s \<noteq> ''AC'')"
  then have "take 2 s = ''AC''" by simp
  then have "s = ''AC'' @ drop 2 s" by (metis append_take_drop_id)
  then show "prefix ''AC'' s" by (metis prefixI)
qed

lemma prefix_M: "prefix ''M'' s \<longleftrightarrow> \<not> (length s = 0 \<or> s ! 0 \<noteq> CHR ''M'')"
  by (cases s) auto

lemma rank_fold:
  "fold (\<lambda>person (nb_commander, nb_captain).
            if rank person = commander then (nb_commander + 1, nb_captain)
            else if rank person = captain then (nb_commander, nb_captain + 1)
            else (nb_commander, nb_captain))
        members (a :: int, b :: int)
   = (a + int (length (filter (\<lambda>p. rank p = commander) members)),
      b + int (length (filter (\<lambda>p. rank p = captain) members)))"
  by (induction members arbitrary: a b) auto

lemma not_min_rank_iff:
  "not_min_rank members \<longleftrightarrow> \<not> (\<exists>p \<in> set members. rank p = commander \<or> rank p = captain)"
  by (auto simp: not_min_rank_def rank_fold filter_empty_conv)

lemma active_crew_iff: "active_crew members \<longleftrightarrow> (\<forall>p \<in> set members. is_active p)"
  by (induction members) auto

lemma count_fold:
  "fold (\<lambda>person nb. if P person then nb + 1 else nb) members (n::int)
     = n + int (length (filter P members))"
  by (induction members arbitrary: n) auto

lemma experience_crew_iff:
  "experience_crew members \<longleftrightarrow> length members \<le> 2 * length (filter (\<lambda>p. years_experience p > 5) members)"
proof -
  have "((of_nat (length members) :: rat) / 2 \<le> of_int (int (length (filter (\<lambda>p. years_experience p > 5) members))))
     \<longleftrightarrow> (of_nat (length members) :: rat) \<le> of_nat (2 * length (filter (\<lambda>p. years_experience p > 5) members))"
    by (simp add: field_simps)
  also have "\<dots> \<longleftrightarrow> length members \<le> 2 * length (filter (\<lambda>p. years_experience p > 5) members)"
    by (rule of_nat_le_iff)
  finally show ?thesis
    by (simp add: experience_crew_def count_fold)
qed

lemma AlienContact_check_model_cases:
  "AlienContact_check_model c =
     (if \<not> fst (Contact_rules ! 0) c then Inl [value_error (snd (Contact_rules ! 0))]
      else if \<not> fst (Contact_rules ! 1) c then Inl [value_error (snd (Contact_rules ! 1))]
      else if \<not> fst (Contact_rules ! 2) c then Inl [value_error (snd (Contact_rules ! 2))]
      else if \<not> fst (Contact_rules ! 3) c then Inl [value_error (snd (Contact_rules ! 3))]
      else Inr c)"
  by (simp add: AlienContact_check_model_def Contact_rules_def prefix_AC not_le)

lemma SpaceMission_check_model_cases:
  "SpaceMission_check_model m =
     (if \<not> fst (Mission_rules ! 0) m then Inl [value_error (snd (Mission_rules ! 0))]
      else if \<not> fst (Mission_rules ! 1) m then Inl [value_error (snd (Mission_rules ! 1))]
      else if \<not> fst (Mission_rules ! 2) m then Inl [value_error (snd (Mission_rules ! 2))]
      else if \<not> fst (Mission_rules ! 3) m then Inl [value_error (snd (Mission_rules ! 3))]
      else Inr m)"
  by (simp add: SpaceMission_check_model_def Mission_rules_def prefix_M not_min_rank_iff
      experience_crew_iff active_crew_iff not_le)

lemma first_failing_4:
  "first_failing [r0, r1, r2, r3] r k \<longleftrightarrow>
     (k = 0 \<and> \<not> fst r0 r) \<or>
     (k = 1 \<and> fst r0 r \<and> \<not> fst r1 r) \<or>
     (k = 2 \<and> fst r0 r \<and> fst r1 r \<and> \<not> fst r2 r) \<or>
     (k = 3 \<and> fst r0 r \<and> fst r1 r \<and> fst r2 r \<and> \<not> fst r3 r)"
proof (cases "k < 4")
  case True
  then consider "k = 0" | "k = 1" | "k = 2" | "k = 3" by linarith
  then show ?thesis
    by cases (auto simp: first_failing_def case_prod_unfold)
next
  case False
  then show ?thesis by (simp add: first_failing_def)
qed

lemma rules_hold_4:
  "rules_hold [r0, r1, r2, r3] r \<longleftrightarrow> fst r0 r \<and> fst r1 r \<and> fst r2 r \<and> fst r3 r"
  by (simp add: rules_hold_def case_prod_unfold)

lemma Contact_rules_list:
  "Contact_rules = [Contact_rules ! 0, Contact_rules ! 1, Contact_rules ! 2, Contact_rules ! 3]"
  by (simp add: Contact_rules_def)

lemma Mission_rules_list:
  "Mission_rules = [Mission_rules ! 0, Mission_rules ! 1, Mission_rules ! 2, Mission_rules ! 3]"
  by (simp add: Mission_rules_def)

lemma AlienContact_first_failing:
  "first_failing Contact_rules c k \<Longrightarrow>
     AlienContact_check_model c = Inl [value_error (snd (Contact_rules ! k))]"
  by (subst (asm) Contact_rules_list) (auto simp: first_failing_4 AlienContact_check_model_cases)

lemma SpaceMission_first_failing:
  "first_failing Mission_rules m k \<Longrightarrow>
     SpaceMission_check_model m = Inl [value_error (snd (Mission_rules ! k))]"
  by (subst (asm) Mission_rules_list) (auto simp: first_failing_4 SpaceMission_check_model_cases)

lemma AlienContact_check_model_Inr:
  "AlienContact_check_model c = Inr c' \<longleftrightarrow> c' = c \<and> rules_hold Contact_rules c"
  by (subst Contact_rules_list) (auto simp: rules_hold_4 AlienContact_check_model_cases)

lemma SpaceMission_check_model_Inr:
  "SpaceMission_check_model m = Inr m' \<longleftrightarrow> m' = m \<and> rules_hold Mission_rules m"
  by (subst Mission_rules_list) (auto simp: rules_hold_4 SpaceMission_check_model_cases)

section \<open>Construction\<close>

lemma new_SpaceStation_Inr:
  "new_SpaceStation now kw = Inr s \<longleftrightarrow>
     s = SpaceStation_instance now kw \<and> Station_valid (SpaceStation_instance now kw)"
  by (auto simp: new_SpaceStation_def SpaceStation_fields_ok [of kw now])

lemma new_CrewMember_Inr:
  "new_CrewMember kw = Inr p \<longleftrightarrow>
     p = CrewMember_instance kw \<and> Crew_Member_valid (CrewMember_instance kw)"
  by (auto simp: new_CrewMember_def CrewMember_fields_ok)

lemma new_AlienContact_Inr:
  "new_AlienContact now kw = Inr c \<longleftrightarrow>
     c = AlienContact_instance now kw \<and> Contact_fields_valid (AlienContact_instance now kw) \<and>
     rules_hold Contact_rules (AlienContact_instance now kw)"
  by (auto simp: new_AlienContact_def AlienContact_fields_ok [of kw now] AlienContact_check_model_Inr)

lemma new_SpaceMission_Inr:
  "new_SpaceMission now kw = Inr m \<longleftrightarrow>
     m = SpaceMission_instance now kw \<and> Mission_fields_valid (SpaceMission_instance now kw) \<and>
     rules_hold Mission_rules (SpaceMission_instance now kw)"
  by (auto simp: new_SpaceMission_def SpaceMission_fields_ok [of kw now] SpaceMission_check_model_Inr)

lemma sample_station_valid: "Station_valid (SpaceStation_instance now sample_station)"
  by (simp add: Station_valid_def SpaceStation_instance_def sample_station_def)

lemma sample_contact_valid:
  "Contact_fields_valid (AlienContact_instance now sample_contact) \<and>
   rules_hold Contact_rules (AlienContact_instance now sample_contact)"
  by (simp add: Contact_fields_valid_def rules_hold_def Contact_rules_def
      AlienContact_instance_def sample_contact_def)

lemma sample_member_valid: "Crew_Member_valid (CrewMember_instance sample_member)"
  by (simp add: Crew_Member_valid_def CrewMember_instance_def sample_member_def)

lemma sample_mission_valid:
  "Mission_fields_valid (SpaceMission_instance now sample_mission) \<and>
   rules_hold Mission_rules (SpaceMission_instance now sample_mission)"
  by (simp add: Mission_fields_valid_def rules_hold_def Mission_rules_def
      SpaceMission_instance_def sample_mission_def sample_crew_def CrewMember_instance_def
      sample_member_def)

text \<open>
  C1: for each of the four schemas (Station, Contact, Crew-Member, Mission), a record that
  construction returns satisfies every declared field constraint and every cross-field
  rule of its schema; construction yields a valid record or a failure, never a record
  that violates one of them.
\<close>

theorem construction_atomic:
  "(new_SpaceStation now ks = Inr s \<longrightarrow> Station_valid s) \<and>
   (new_AlienContact now kc = Inr c \<longrightarrow> Contact_fields_valid c \<and> rules_hold Contact_rules c) \<and>
   (new_CrewMember kp = Inr p \<longrightarrow> Crew_Member_valid p) \<and>
   (new_SpaceMission now km = Inr m \<longrightarrow> Mission_fields_valid m \<and> rules_hold Mission_rules m)"
  by (simp add: new_SpaceStation_Inr new_AlienContact_Inr new_CrewMember_Inr new_SpaceMission_Inr)

theorem construction_atomic_witness:
  "new_SpaceStation 0 sample_station = Inr (SpaceStation_instance 0 sample_station) \<and>
   Station_valid (SpaceStation_instance 0 sample_station) \<and>
   new_AlienContact 0 sample_contact = Inr (AlienContact_instance 0 sample_contact) \<and>
   Contact_fields_valid (AlienContact_instance 0 sample_contact) \<and>
   rules_hold Contact_rules (AlienContact_instance 0 sample_contact) \<and>
   new_CrewMember sample_member = Inr (CrewMember_instance sample_member) \<and>
   Crew_Member_valid (CrewMember_instance sample_member) \<and>
   new_SpaceMission 0 sample_mission = Inr (SpaceMission_instance 0 sample_mission) \<and>
   Mission_fields_valid (SpaceMission_instance 0 sample_mission) \<and>
   rules_hold Mission_rules (SpaceMission_instance 0 sample_mission)"
proof -
  have s: "new_SpaceStation 0 sample_station = Inr (SpaceStation_instance 0 sample_station)"
    by (simp add: new_SpaceStation_Inr sample_station_valid)
  have c: "new_AlienContact 0 sample_contact = Inr (AlienContact_instance 0 sample_contact)"
    by (simp add: new_AlienContact_Inr sample_contact_valid)
  have p: "new_CrewMember sample_member = Inr (CrewMember_instance sample_member)"
    by (simp add: new_CrewMember_Inr sample_member_valid)
  have m: "new_SpaceMission 0 sample_mission = Inr (SpaceMission_instance 0 sample_mission)"
    by (simp add: new_SpaceMission_Inr sample_mission_valid)
  from s c p m
    construction_atomic [of 0 sample_station "SpaceStation_instance 0 sample_station"
      sample_contact "AlienContact_instance 0 sample_contact"
      sample_member "CrewMember_instance sample_member"
      sample_mission "SpaceMission_instance 0 sample_mission"]
  show ?thesis by blast
qed

text \<open>
  C2: when every field value of the input lies within its declared bounds and every
  cross-field rule of the schema holds, construction succeeds, and the fields of the
  returned record are the supplied values, with the declared default in place of each
  omitted field (the clock value, \<open>True\<close>, \<open>False\<close>, \<open>''planned''\<close>).
\<close>

theorem construction_succeeds_on_valid_input:
  "(Station_valid (SpaceStation_instance now ks) \<longrightarrow>
      new_SpaceStation now ks = Inr
        \<lparr>station_id = ss_station_id ks,
         name = ss_name ks,
         crew_size = ss_crew_size ks,
         power_level = ss_power_level ks,
         oxygen_level = ss_oxygen_level ks,
         last_maintenance = (case ss_last_maintenance ks of None \<Rightarrow> now | Some t \<Rightarrow> t),
         is_operational = (case ss_is_operational ks of None \<Rightarrow> True | Some b \<Rightarrow> b),
         notes = ss_notes ks\<rparr>) \<and>
   (Contact_fields_valid (AlienContact_instance now kc) \<and>
    rules_hold Contact_rules (AlienContact_instance now kc) \<longrightarrow>
      new_AlienContact now kc = Inr
        \<lparr>contact_id = ac_contact_id kc,
         timestamp = (case ac_timestamp kc of None \<Rightarrow> now | Some t \<Rightarrow> t),
         location = ac_location kc,
         contact_type = ac_contact_type kc,
         signal_strength = ac_signal_strength kc,
         duration_minutes = ac_duration_minutes kc,
         witness_count = ac_witness_count kc,
         message_received = ac_message_received kc,
         is_verified = (case ac_is_verified kc of None \<Rightarrow> False | Some b \<Rightarrow> b)\<rparr>) \<and>
   (Crew_Member_valid (CrewMember_instance kp) \<longrightarrow>
      new_CrewMember kp = Inr
        \<lparr>member_id = cm_member_id kp,
         name = cm_name kp,
         rank = cm_rank kp,
         age = cm_age kp,
         specialization = cm_specialization kp,
         years_experience = cm_years_experience kp,
         is_active = (case cm_is_active kp of None \<Rightarrow> True | Some b \<Rightarrow> b)\<rparr>) \<and>
   (Mission_fields_valid (SpaceMission_instance now km) \<and>
    rules_hold Mission_rules (SpaceMission_instance now km) \<longrightarrow>
      new_SpaceMission now km = Inr
        \<lparr>mission_id = sm_mission_id km,
         mission_name = sm_mission_name km,
         destination = sm_destination km,
         lauch_date = (case sm_lauch_date km of None \<Rightarrow> now | Some t \<Rightarrow> t),
         duration_days = sm_duration_days km,
         crew = sm_crew km,
         mission_status = (case sm_mission_status km of None \<Rightarrow> ''planned'' | Some s \<Rightarrow> s),
         budget_millions = sm_budget_millions km\<rparr>)"
proof (intro conjI impI)
  assume "Station_valid (SpaceStation_instance now ks)"
  then have "new_SpaceStation now ks = Inr (SpaceStation_instance now ks)"
    by (simp add: new_SpaceStation_Inr)
  then show "new_SpaceStation now ks = Inr
        \<lparr>station_id = ss_station_id ks,
         name = ss_name ks,
         crew_size = ss_crew_size ks,
         power_level = ss_power_level ks,
         oxygen_level = ss_oxygen_level ks,
         last_maintenance = (case ss_last_maintenance ks of None \<Rightarrow> now | Some t \<Rightarrow> t),
         is_operational = (case ss_is_operational ks of None \<Rightarrow> True | Some b \<Rightarrow> b),
         notes = ss_notes ks\<rparr>"
    by (simp add: SpaceStation_instance_def)
next
  assume "Contact_fields_valid (AlienContact_instance now kc) \<and>
    rules_hold Contact_rules (AlienContact_instance now kc)"
  then have "new_AlienContact now kc = Inr (AlienContact_instance now kc)"
    by (simp add: new_AlienContact_Inr)
  then show "new_AlienContact now kc = Inr
        \<lparr>contact_id = ac_contact_id kc,
         timestamp = (case ac_timestamp kc of None \<Rightarrow> now | Some t \<Rightarrow> t),
         location = ac_location kc,
         contact_type = ac_contact_type kc,
         signal_strength = ac_signal_strength kc,
         duration_minutes = ac_duration_minutes kc,
         witness_count = ac_witness_count kc,
         message_received = ac_message_received kc,
         is_verified = (case ac_is_verified kc of None \<Rightarrow> False | Some b \<Rightarrow> b)\<rparr>"
    by (simp add: AlienContact_instance_def)
next
  assume "Crew_Member_valid (CrewMember_instance kp)"
  then have "new_CrewMember kp = Inr (CrewMember_instance kp)"
    by (simp add: new_CrewMember_Inr)
  then show "new_CrewMember kp = Inr
        \<lparr>member_id = cm_member_id kp,
         name = cm_name kp,
         rank = cm_rank kp,
         age = cm_age kp,
         specialization = cm_specialization kp,
         years_experience = cm_years_experience kp,
         is_active = (case cm_is_active kp of None \<Rightarrow> True | Some b \<Rightarrow> b)\<rparr>"
    by (simp add: CrewMember_instance_def)
next
  assume "Mission_fields_valid (SpaceMission_instance now km) \<and>
    rules_hold Mission_rules (SpaceMission_instance now km)"
  then have "new_SpaceMission now km = Inr (SpaceMission_instance now km)"
    by (simp add: new_SpaceMission_Inr)
  then show "new_SpaceMission now km = Inr
        \<lparr>mission_id = sm_mission_id km,
         mission_name = sm_mission_name km,
         destination = sm_destination km,
         lauch_date = (case sm_lauch_date km of None \<Rightarrow> now | Some t \<Rightarrow> t),
         duration_days = sm_duration_days km,
         crew = sm_crew km,
         mission_status = (case sm_mission_status km of None \<Rightarrow> ''planned'' | Some s \<Rightarrow> s),
         budget_millions = sm_budget_millions km\<rparr>"
    by (simp add: SpaceMission_instance_def)
qed

theorem construction_succeeds_on_valid_input_witness:
  "Station_valid (SpaceStation_instance 7 sample_station) \<and>
   (\<exists>s. new_SpaceStation 7 sample_station = Inr s \<and> station_id s = ''ISS001'' \<and>
        crew_size s = 6 \<and> last_maintenance s = 7 \<and> is_operational s \<and> notes s = None) \<and>
   Contact_fields_valid (AlienContact_instance 7 sample_contact) \<and>
   rules_hold Contact_rules (AlienContact_instance 7 sample_contact) \<and>
   (\<exists>c. new_AlienContact 7 sample_contact = Inr c \<and> contact_id c = ''AC_2024_001'' \<and>
        timestamp c = 7 \<and> witness_count c = 5 \<and> \<not> is_verified c) \<and>
   Crew_Member_valid (CrewMember_instance sample_member) \<and>
   (\<exists>p. new_CrewMember sample_member = Inr p \<and> rank p = commander \<and> age p = 37 \<and> is_active p) \<and>
   Mission_fields_valid (SpaceMission_instance 7 sample_mission) \<and>
   rules_hold Mission_rules (SpaceMission_instance 7 sample_mission) \<and>
   (\<exists>m. new_SpaceMission 7 sample_mission = Inr m \<and> mission_id m = ''M2024_MARS'' \<and>
        lauch_date m = 7 \<and> crew m = sample_crew \<and> mission_status m = ''planned'')"
  using construction_succeeds_on_valid_input [of 7 sample_station sample_contact sample_member sample_mission]
    sample_station_valid [of 7] sample_contact_valid [of 7] sample_member_valid
    sample_mission_valid [of 7]
  by (simp add: sample_station_def sample_contact_def sample_member_def sample_mission_def)

lemma only_violation_filter:
  "distinct (map fst bs) \<Longrightarrow> only_violation bs kw f \<Longrightarrow>
     map fst (filter (\<lambda>(g, ok). \<not> ok kw) bs) = [f]"
proof (induction bs)
  case Nil
  then show ?case by (simp add: only_violation_def)
next
  case (Cons a bs)
  obtain g ok where a: "a = (g, ok)" by (cases a)
  show ?case
  proof (cases "g = f")
    case True
    with Cons.prems a have notin: "f \<notin> fst ` set bs" by simp
    with Cons.prems(2) a True have "\<not> ok kw"
      by (force simp: only_violation_def)
    moreover from notin Cons.prems(2) a
    have "filter (\<lambda>(g, ok). \<not> ok kw) bs = []"
      by (force simp: only_violation_def filter_empty_conv)
    ultimately show ?thesis using a True by simp
  next
    case False
    with Cons.prems(2) a have "ok kw" and "only_violation bs kw f"
      by (auto simp: only_violation_def)
    with Cons a show ?thesis by simp
  qed
qed

lemma Field_length_Some: "Field_length lo hi n \<noteq> None \<longleftrightarrow> \<not> (lo \<le> n \<and> n \<le> hi)"
  by (simp add: Field_length_None)

lemma Field_range_Some: "Field_range lo hi x \<noteq> None \<longleftrightarrow> \<not> (lo \<le> x \<and> x \<le> hi)"
  by (simp add: Field_range_None)

lemma Field_optional_max_length_Some:
  "Field_optional_max_length hi v \<noteq> None \<longleftrightarrow> \<not> (case v of None \<Rightarrow> True | Some s \<Rightarrow> length s \<le> hi)"
  by (simp add: Field_optional_max_length_None)

lemma SpaceStation_violated:
  "violated_fields SpaceStation_fields kw
     = map fst (filter (\<lambda>(g, ok). \<not> ok kw) Station_field_bounds)"
  by (simp del: not_None_eq add: violated_fields_def SpaceStation_fields_def Station_field_bounds_def
      Field_length_Some Field_range_Some Field_optional_max_length_Some no_constraint_def)

lemma AlienContact_violated:
  "violated_fields AlienContact_fields kw
     = map fst (filter (\<lambda>(g, ok). \<not> ok kw) Contact_field_bounds)"
  by (simp del: not_None_eq add: violated_fields_def AlienContact_fields_def Contact_field_bounds_def
      Field_length_Some Field_range_Some no_constraint_def)

lemma CrewMember_violated:
  "violated_fields CrewMember_fields kw
     = map fst (filter (\<lambda>(g, ok). \<not> ok kw) Crew_Member_field_bounds)"
  by (simp del: not_None_eq add: violated_fields_def CrewMember_fields_def Crew_Member_field_bounds_def
      Field_length_Some Field_range_Some no_constraint_def)

lemma SpaceMission_violated:
  "violated_fields SpaceMission_fields kw
     = map fst (filter (\<lambda>(g, ok). \<not> ok kw) Mission_field_bounds)"
  by (simp del: not_None_eq add: violated_fields_def SpaceMission_fields_def Mission_field_bounds_def
      Field_length_Some Field_range_Some no_constraint_def)

lemma validate_fields_constraint_errors:
  "list_all (\<lambda>e. case e of constraint_error loc c \<Rightarrow> True | value_error msg \<Rightarrow> False)
     (validate_fields tbl kw)"
  by (induction tbl) (auto simp: validate_fields_def split: option.splits)

lemma only_violation_reported:
  assumes "violated_fields tbl kw = map fst (filter (\<lambda>(g, ok). \<not> ok kw) bs)"
    and "distinct (map fst bs)" and "only_violation bs kw f"
  shows "\<exists>c. validate_fields tbl kw = [constraint_error f c]"
proof -
  from assms have "violated_fields tbl kw = [f]"
    by (simp add: only_violation_filter)
  then show ?thesis by (rule validate_fields_single)
qed

lemma sample_station_only_violation:
  "only_violation Station_field_bounds (sample_station\<lparr>ss_station_id := ''AB''\<rparr>) ''station_id''"
  by (simp add: only_violation_def Station_field_bounds_def sample_station_def)

lemma sample_contact_only_violation:
  "only_violation Contact_field_bounds
     (sample_contact\<lparr>ac_contact_id := ''XX_2024_001'', ac_witness_count := 0\<rparr>) ''witness_count''"
  by (simp add: only_violation_def Contact_field_bounds_def sample_contact_def)

lemma sample_member_only_violation:
  "only_violation Crew_Member_field_bounds (sample_member\<lparr>cm_name := ''S''\<rparr>) ''name''"
  by (simp add: only_violation_def Crew_Member_field_bounds_def sample_member_def)

lemma sample_mission_only_violation:
  "only_violation Mission_field_bounds
     (sample_mission\<lparr>sm_mission_id := ''X2024_MARS'', sm_crew := []\<rparr>) ''crew''"
  by (simp add: only_violation_def Mission_field_bounds_def sample_mission_def)

text \<open>
  C3: when exactly one field of the input is outside its declared bounds (the bounds of
  every other field hold), construction fails with a single field-constraint error that
  names this field, whatever the cross-field rules say of the input. More generally,
  whenever some field of a Contact or Mission input is out of bounds the failure consists
  of field-constraint errors only: the rule chain runs only after all field constraints
  pass.
\<close>

theorem single_field_violation_reported:
  "(only_violation Station_field_bounds ks f1 \<longrightarrow>
      (\<exists>c. new_SpaceStation now ks = Inl [constraint_error f1 c])) \<and>
   (only_violation Contact_field_bounds kc f2 \<longrightarrow>
      (\<exists>c. new_AlienContact now kc = Inl [constraint_error f2 c])) \<and>
   (only_violation Crew_Member_field_bounds kp f3 \<longrightarrow>
      (\<exists>c. new_CrewMember kp = Inl [constraint_error f3 c])) \<and>
   (only_violation Mission_field_bounds km f4 \<longrightarrow>
      (\<exists>c. new_SpaceMission now km = Inl [constraint_error f4 c])) \<and>
   (\<not> Contact_fields_valid (AlienContact_instance now kc) \<longrightarrow>
      (\<exists>errors. new_AlienContact now kc = Inl errors \<and> only_constraint_errors errors)) \<and>
   (\<not> Mission_fields_valid (SpaceMission_instance now km) \<longrightarrow>
      (\<exists>errors. new_SpaceMission now km = Inl errors \<and> only_constraint_errors errors))"
proof (intro conjI impI)
  assume a: "only_violation Station_field_bounds ks f1"
  have d: "distinct (map fst Station_field_bounds)"
    by (simp add: Station_field_bounds_def)
  from only_violation_reported [OF SpaceStation_violated d a]
  obtain c where "validate_fields SpaceStation_fields ks = [constraint_error f1 c]" ..
  then show "\<exists>c. new_SpaceStation now ks = Inl [constraint_error f1 c]"
    by (simp add: new_SpaceStation_def)
next
  assume a: "only_violation Contact_field_bounds kc f2"
  have d: "distinct (map fst Contact_field_bounds)"
    by (simp add: Contact_field_bounds_def)
  from only_violation_reported [OF AlienContact_violated d a]
  obtain c where "validate_fields AlienContact_fields kc = [constraint_error f2 c]" ..
  then show "\<exists>c. new_AlienContact now kc = Inl [constraint_error f2 c]"
    by (simp add: new_AlienContact_def)
next
  assume a: "only_violation Crew_Member_field_bounds kp f3"
  have d: "distinct (map fst Crew_Member_field_bounds)"
    by (simp add: Crew_Member_field_bounds_def)
  from only_violation_reported [OF CrewMember_violated d a]
  obtain c where "validate_fields CrewMember_fields kp = [constraint_error f3 c]" ..
  then show "\<exists>c. new_CrewMember kp = Inl [constraint_error f3 c]"
    by (simp add: new_CrewMember_def)
next
  assume a: "only_violation Mission_field_bounds km f4"
  have d: "distinct (map fst Mission_field_bounds)"
    by (simp add: Mission_field_bounds_def)
  from only_violation_reported [OF SpaceMission_violated d a]
  obtain c where "validate_fields SpaceMission_fields km = [constraint_error f4 c]" ..
  then show "\<exists>c. new_SpaceMission now km = Inl [constraint_error f4 c]"
    by (simp add: new_SpaceMission_def)
next
  assume "\<not> Contact_fields_valid (AlienContact_instance now kc)"
  then have "validate_fields AlienContact_fields kc \<noteq> []"
    by (simp add: AlienContact_fields_ok [of kc now])
  then show "\<exists>errors. new_AlienContact now kc = Inl errors \<and> only_constraint_errors errors"
    by (simp add: new_AlienContact_def only_constraint_errors_def validate_fields_constraint_errors)
next
  assume "\<not> Mission_fields_valid (SpaceMission_instance now km)"
  then have "validate_fields SpaceMission_fields km \<noteq> []"
    by (simp add: SpaceMission_fields_ok [of km now])
  then show "\<exists>errors. new_SpaceMission now km = Inl errors \<and> only_constraint_errors errors"
    by (simp add: new_SpaceMission_def only_constraint_errors_def validate_fields_constraint_errors)
qed

theorem single_field_violation_reported_witness:
  "only_violation Station_field_bounds (sample_station\<lparr>ss_station_id := ''AB''\<rparr>) ''station_id'' \<and>
   (\<exists>c. new_SpaceStation 0 (sample_station\<lparr>ss_station_id := ''AB''\<rparr>)
          = Inl [constraint_error ''station_id'' c]) \<and>
   only_violation Contact_field_bounds
     (sample_contact\<lparr>ac_contact_id := ''XX_2024_001'', ac_witness_count := 0\<rparr>) ''witness_count'' \<and>
   \<not> rules_hold Contact_rules (AlienContact_instance 0
     (sample_contact\<lparr>ac_contact_id := ''XX_2024_001'', ac_witness_count := 0\<rparr>)) \<and>
   \<not> Contact_fields_valid (AlienContact_instance 0
     (sample_contact\<lparr>ac_contact_id := ''XX_2024_001'', ac_witness_count := 0\<rparr>)) \<and>
   (\<exists>c. new_AlienContact 0 (sample_contact\<lparr>ac_contact_id := ''XX_2024_001'', ac_witness_count := 0\<rparr>)
          = Inl [constraint_error ''witness_count'' c]) \<and>
   (\<exists>errors. new_AlienContact 0
        (sample_contact\<lparr>ac_contact_id := ''XX_2024_001'', ac_witness_count := 0\<rparr>) = Inl errors \<and>
      only_constraint_errors errors) \<and>
   only_violation Crew_Member_field_bounds (sample_member\<lparr>cm_name := ''S''\<rparr>) ''name'' \<and>
   (\<exists>c. new_CrewMember (sample_member\<lparr>cm_name := ''S''\<rparr>) = Inl [constraint_error ''name'' c]) \<and>
   only_violation Mission_field_bounds
     (sample_mission\<lparr>sm_mission_id := ''X2024_MARS'', sm_crew := []\<rparr>) ''crew'' \<and>
   \<not> rules_hold Mission_rules (SpaceMission_instance 0
     (sample_mission\<lparr>sm_mission_id := ''X2024_MARS'', sm_crew := []\<rparr>)) \<and>
   \<not> Mission_fields_valid (SpaceMission_instance 0
     (sample_mission\<lparr>sm_mission_id := ''X2024_MARS'', sm_crew := []\<rparr>)) \<and>
   (\<exists>c. new_SpaceMission 0 (sample_mission\<lparr>sm_mission_id := ''X2024_MARS'', sm_crew := []\<rparr>)
          = Inl [constraint_error ''crew'' c]) \<and>
   (\<exists>errors. new_SpaceMission 0
        (sample_mission\<lparr>sm_mission_id := ''X2024_MARS'', sm_crew := []\<rparr>) = Inl errors \<and>
      only_constraint_errors errors)"
proof -
  let ?kc = "sample_contact\<lparr>ac_contact_id := ''XX_2024_001'', ac_witness_count := 0\<rparr>"
  let ?km = "sample_mission\<lparr>sm_mission_id := ''X2024_MARS'', sm_crew := []\<rparr>"
  have c: "\<not> rules_hold Contact_rules (AlienContact_instance 0 ?kc)"
    by (simp add: rules_hold_def Contact_rules_def AlienContact_instance_def sample_contact_def)
  have c': "\<not> Contact_fields_valid (AlienContact_instance 0 ?kc)"
    by (simp add: Contact_fields_valid_def AlienContact_instance_def sample_contact_def)
  have m: "\<not> rules_hold Mission_rules (SpaceMission_instance 0 ?km)"
    by (simp add: rules_hold_def Mission_rules_def SpaceMission_instance_def sample_mission_def)
  have m': "\<not> Mission_fields_valid (SpaceMission_instance 0 ?km)"
    by (simp add: Mission_fields_valid_def SpaceMission_instance_def sample_mission_def)
  from c c' m m' sample_station_only_violation sample_contact_only_violation
    sample_member_only_violation sample_mission_only_violation
    single_field_violation_reported [of "sample_station\<lparr>ss_station_id := ''AB''\<rparr>" "''station_id''" 0
      ?kc "''witness_count''" "sample_member\<lparr>cm_name := ''S''\<rparr>" "''name''" ?km "''crew''"]
  show ?thesis by blast
qed

text \<open>
  C4: for an input whose fields are all individually valid, when rule \<open>k\<close> is the first
  rule of the schema's ordered list (Contact or Mission) whose predicate fails,
  construction fails with exactly the message of rule \<open>k\<close> and no other, whether or not
  later rules fail as well.
\<close>

theorem first_failing_rule_message:
  "(Contact_fields_valid (AlienContact_instance now kc) \<and>
    first_failing Contact_rules (AlienContact_instance now kc) k \<longrightarrow>
      new_AlienContact now kc = Inl [value_error (snd (Contact_rules ! k))]) \<and>
   (Mission_fields_valid (SpaceMission_instance now km) \<and>
    first_failing Mission_rules (SpaceMission_instance now km) j \<longrightarrow>
      new_SpaceMission now km = Inl [value_error (snd (Mission_rules ! j))])"
  by (simp add: new_AlienContact_def new_SpaceMission_def
      AlienContact_fields_ok [of kc now, symmetric] SpaceMission_fields_ok [of km now, symmetric]
      AlienContact_first_failing SpaceMission_first_failing)

theorem first_failing_rule_message_witness:
  "Contact_fields_valid (AlienContact_instance 0
     (sample_contact\<lparr>ac_contact_type := telepathic, ac_witness_count := 1,
        ac_message_received := None\<rparr>)) \<and>
   first_failing Contact_rules (AlienContact_instance 0
     (sample_contact\<lparr>ac_contact_type := telepathic, ac_witness_count := 1,
        ac_message_received := None\<rparr>)) 2 \<and>
   \<not> fst (Contact_rules ! 3) (AlienContact_instance 0
     (sample_contact\<lparr>ac_contact_type := telepathic, ac_witness_count := 1,
        ac_message_received := None\<rparr>)) \<and>
   new_AlienContact 0
     (sample_contact\<lparr>ac_contact_type := telepathic, ac_witness_count := 1,
        ac_message_received := None\<rparr>)
     = Inl [value_error ''telepathic contact requires at least 3 witnesses''] \<and>
   Mission_fields_valid (SpaceMission_instance 0
     (sample_mission\<lparr>sm_crew := map (\<lambda>p. p\<lparr>rank := cadet, is_active := False\<rparr>) sample_crew\<rparr>)) \<and>
   first_failing Mission_rules (SpaceMission_instance 0
     (sample_mission\<lparr>sm_crew := map (\<lambda>p. p\<lparr>rank := cadet, is_active := False\<rparr>) sample_crew\<rparr>)) 1 \<and>
   \<not> fst (Mission_rules ! 3) (SpaceMission_instance 0
     (sample_mission\<lparr>sm_crew := map (\<lambda>p. p\<lparr>rank := cadet, is_active := False\<rparr>) sample_crew\<rparr>)) \<and>
   new_SpaceMission 0
     (sample_mission\<lparr>sm_crew := map (\<lambda>p. p\<lparr>rank := cadet, is_active := False\<rparr>) sample_crew\<rparr>)
     = Inl [value_error ''Must have at least one Commander or Captain'']"
proof -
  let ?kc = "sample_contact\<lparr>ac_contact_type := telepathic, ac_witness_count := 1,
        ac_message_received := None\<rparr>"
  let ?km = "sample_mission\<lparr>sm_crew := map (\<lambda>p. p\<lparr>rank := cadet, is_active := False\<rparr>) sample_crew\<rparr>"
  have c1: "Contact_fields_valid (AlienContact_instance 0 ?kc)"
    by (simp add: Contact_fields_valid_def AlienContact_instance_def sample_contact_def)
  have c2: "first_failing Contact_rules (AlienContact_instance 0 ?kc) 2"
    by (simp add: first_failing_def Contact_rules_def AlienContact_instance_def sample_contact_def)
  have c3: "\<not> fst (Contact_rules ! 3) (AlienContact_instance 0 ?kc)"
    by (simp add: Contact_rules_def AlienContact_instance_def sample_contact_def)
  have c4: "snd (Contact_rules ! 2) = ''telepathic contact requires at least 3 witnesses''"
    by (simp add: Contact_rules_def)
  have m1: "Mission_fields_valid (SpaceMission_instance 0 ?km)"
    by (simp add: Mission_fields_valid_def SpaceMission_instance_def sample_mission_def sample_crew_def)
  have m2: "first_failing Mission_rules (SpaceMission_instance 0 ?km) 1"
    by (simp add: first_failing_def Mission_rules_def SpaceMission_instance_def sample_mission_def
        sample_crew_def)
  have m3: "\<not> fst (Mission_rules ! 3) (SpaceMission_instance 0 ?km)"
    by (simp add: Mission_rules_def SpaceMission_instance_def sample_mission_def sample_crew_def)
  have m4: "snd (Mission_rules ! 1) = ''Must have at least one Commander or Captain''"
    by (simp add: Mission_rules_def)
  from first_failing_rule_message [of 0 ?kc 2 ?km 1] c1 c2 c3 c4 m1 m2 m3 m4
  show ?thesis by simp
qed

text \<open>
  C5: \<^verbatim>\<open>experience_crew\<close> is true iff the number of members with more than 5 years
  of experience is at least half the crew size under real-number division; for a crew of
  3 it is false with exactly 1 such member and true with exactly 2.
\<close>

theorem experience_crew_majority:
  "(experience_crew members \<longleftrightarrow>
      real (length members) / 2 \<le> real (length (filter (\<lambda>p. years_experience p > 5) members))) \<and>
   (length members = 3 \<and> length (filter (\<lambda>p. years_experience p > 5) members) = 1
      \<longrightarrow> \<not> experience_crew members) \<and>
   (length members = 3 \<and> length (filter (\<lambda>p. years_experience p > 5) members) = 2
      \<longrightarrow> experience_crew members)"
proof -
  have "(real (length members) / 2 \<le> real (length (filter (\<lambda>p. years_experience p > 5) members)))
     \<longleftrightarrow> real (length members) \<le> real (2 * length (filter (\<lambda>p. years_experience p > 5) members))"
    by (simp add: field_simps)
  also have "\<dots> \<longleftrightarrow> length members \<le> 2 * length (filter (\<lambda>p. years_experience p > 5) members)"
    by (rule of_nat_le_iff)
  finally show ?thesis
    by (simp add: experience_crew_iff)
qed

theorem experience_crew_majority_witness:
  "length sample_crew = 3 \<and>
   length (filter (\<lambda>p. years_experience p > 5) sample_crew) = 2 \<and>
   experience_crew sample_crew \<and>
   length (sample_crew[2 := (sample_crew ! 2)\<lparr>years_experience := 3\<rparr>]) = 3 \<and>
   length (filter (\<lambda>p. years_experience p > 5)
             (sample_crew[2 := (sample_crew ! 2)\<lparr>years_experience := 3\<rparr>])) = 1 \<and>
   \<not> experience_crew (sample_crew[2 := (sample_crew ! 2)\<lparr>years_experience := 3\<rparr>])"
proof -
  have a: "length sample_crew = 3 \<and>
      length (filter (\<lambda>p. years_experience p > 5) sample_crew) = 2"
    by (simp add: sample_crew_def CrewMember_instance_def sample_member_def)
  have b: "length (sample_crew[2 := (sample_crew ! 2)\<lparr>years_experience := 3\<rparr>]) = 3 \<and>
      length (filter (\<lambda>p. years_experience p > 5)
             (sample_crew[2 := (sample_crew ! 2)\<lparr>years_experience := 3\<rparr>])) = 1"
    by (simp add: sample_crew_def CrewMember_instance_def sample_member_def)
  from a b experience_crew_majority [of sample_crew]
    experience_crew_majority [of "sample_crew[2 := (sample_crew ! 2)\<lparr>years_experience := 3\<rparr>]"]
  show ?thesis by blast
qed

text \<open>
  C6: the command-rank predicate (the negation of \<^verbatim>\<open>not_min_rank\<close>) is true iff some
  member is a commander or some member is a captain; so a Mission input with individually
  valid fields and an id starting with 'M' whose crew has neither fails with the message
  "Must have at least one Commander or Captain".
\<close>

theorem command_rank_required:
  "(\<not> not_min_rank members \<longleftrightarrow>
      (\<exists>p \<in> set members. rank p = commander) \<or> (\<exists>p \<in> set members. rank p = captain)) \<and>
   (Mission_fields_valid (SpaceMission_instance now km) \<and> prefix ''M'' (sm_mission_id km) \<and>
    \<not> (\<exists>p \<in> set (sm_crew km). rank p = commander \<or> rank p = captain) \<longrightarrow>
      new_SpaceMission now km = Inl [value_error ''Must have at least one Commander or Captain''])"
proof (intro conjI impI)
  show "\<not> not_min_rank members \<longleftrightarrow>
      (\<exists>p \<in> set members. rank p = commander) \<or> (\<exists>p \<in> set members. rank p = captain)"
    by (auto simp: not_min_rank_iff)
next
  assume a: "Mission_fields_valid (SpaceMission_instance now km) \<and> prefix ''M'' (sm_mission_id km) \<and>
    \<not> (\<exists>p \<in> set (sm_crew km). rank p = commander \<or> rank p = captain)"
  then have "validate_fields SpaceMission_fields km = []"
    by (simp add: SpaceMission_fields_ok [of km now])
  moreover from a have "fst (Mission_rules ! 0) (SpaceMission_instance now km)"
    and "\<not> fst (Mission_rules ! 1) (SpaceMission_instance now km)"
    by (simp_all add: Mission_rules_def SpaceMission_instance_def)
  moreover have "snd (Mission_rules ! 1) = ''Must have at least one Commander or Captain''"
    by (simp add: Mission_rules_def)
  ultimately show "new_SpaceMission now km
      = Inl [value_error ''Must have at least one Commander or Captain'']"
    by (simp add: new_SpaceMission_def SpaceMission_check_model_cases)
qed

theorem command_rank_required_witness:
  "\<not> not_min_rank sample_crew \<and> (\<exists>p \<in> set sample_crew. rank p = commander) \<and>
   not_min_rank (tl sample_crew) \<and>
   \<not> ((\<exists>p \<in> set (tl sample_crew). rank p = commander) \<or>
       (\<exists>p \<in> set (tl sample_crew). rank p = captain)) \<and>
   Mission_fields_valid (SpaceMission_instance 0
      (sample_mission\<lparr>sm_crew := hd sample_crew\<lparr>rank := cadet\<rparr> # tl sample_crew\<rparr>)) \<and>
   prefix ''M'' (sm_mission_id (sample_mission\<lparr>sm_crew := hd sample_crew\<lparr>rank := cadet\<rparr> # tl sample_crew\<rparr>)) \<and>
   new_SpaceMission 0 (sample_mission\<lparr>sm_crew := hd sample_crew\<lparr>rank := cadet\<rparr> # tl sample_crew\<rparr>)
     = Inl [value_error ''Must have at least one Commander or Captain'']"
proof -
  let ?km = "sample_mission\<lparr>sm_crew := hd sample_crew\<lparr>rank := cadet\<rparr> # tl sample_crew\<rparr>"
  have a: "\<exists>p \<in> set sample_crew. rank p = commander"
    by (simp add: sample_crew_def CrewMember_instance_def sample_member_def)
  have b: "\<not> ((\<exists>p \<in> set (tl sample_crew). rank p = commander) \<or>
       (\<exists>p \<in> set (tl sample_crew). rank p = captain))"
    by (simp add: sample_crew_def CrewMember_instance_def sample_member_def)
  have c: "Mission_fields_valid (SpaceMission_instance 0 ?km)"
    by (simp add: Mission_fields_valid_def SpaceMission_instance_def sample_mission_def sample_crew_def)
  have d: "prefix ''M'' (sm_mission_id ?km)"
    by (simp add: sample_mission_def)
  have e: "\<not> (\<exists>p \<in> set (sm_crew ?km). rank p = commander \<or> rank p = captain)"
    by (simp add: sample_crew_def CrewMember_instance_def sample_member_def)
  from a b c d e command_rank_required [of sample_crew 0 ?km]
    command_rank_required [of "tl sample_crew" 0 ?km]
  show ?thesis by blast
qed

text \<open>
  C9: for every valid Station record, the status line printed by
  \<^verbatim>\<open>display_station\<close> (the sixth and last line) reads "Status: Non Operational" when
  \<^verbatim>\<open>is_operational\<close> is true and "Status: Operational" when it is false.
\<close>

theorem display_station_status:
  "new_SpaceStation now kw = Inr station \<longrightarrow>
     length (display_station str_float station) = 6 \<and>
     (is_operational station \<longrightarrow>
        display_station str_float station ! 5 = ''Status: Non Operational'') \<and>
     (\<not> is_operational station \<longrightarrow>
        display_station str_float station ! 5 = ''Status: Operational'')"
  by (simp add: display_station_def)

theorem display_station_status_witness:
  "new_SpaceStation 0 sample_station = Inr (SpaceStation_instance 0 sample_station) \<and>
   is_operational (SpaceStation_instance 0 sample_station) \<and>
   display_station (\<lambda>x. str_int \<lfloor>x\<rfloor>) (SpaceStation_instance 0 sample_station) ! 5
     = ''Status: Non Operational'' \<and>
   new_SpaceStation 0 (sample_station\<lparr>ss_is_operational := Some False\<rparr>)
     = Inr (SpaceStation_instance 0 (sample_station\<lparr>ss_is_operational := Some False\<rparr>)) \<and>
   \<not> is_operational (SpaceStation_instance 0 (sample_station\<lparr>ss_is_operational := Some False\<rparr>)) \<and>
   display_station (\<lambda>x. str_int \<lfloor>x\<rfloor>)
       (SpaceStation_instance 0 (sample_station\<lparr>ss_is_operational := Some False\<rparr>)) ! 5
     = ''Status: Operational''"
proof -
  let ?kw = "sample_station\<lparr>ss_is_operational := Some False\<rparr>"
  have a: "new_SpaceStation 0 sample_station = Inr (SpaceStation_instance 0 sample_station)"
    by (simp add: new_SpaceStation_Inr sample_station_valid)
  have "Station_valid (SpaceStation_instance 0 ?kw)"
    by (simp add: Station_valid_def SpaceStation_instance_def sample_station_def)
  then have b: "new_SpaceStation 0 ?kw = Inr (SpaceStation_instance 0 ?kw)"
    by (simp add: new_SpaceStation_Inr)
  have c: "is_operational (SpaceStation_instance 0 sample_station)"
    by (simp add: SpaceStation_instance_def sample_station_def)
  have d: "\<not> is_operational (SpaceStation_instance 0 ?kw)"
    by (simp add: SpaceStation_instance_def)
  from a b c d
    display_station_status [of 0 sample_station "SpaceStation_instance 0 sample_station" "\<lambda>x. str_int \<lfloor>x\<rfloor>"]
    display_station_status [of 0 ?kw "SpaceStation_instance 0 ?kw" "\<lambda>x. str_int \<lfloor>x\<rfloor>"]
  show ?thesis by blast
qed

section \<open>Properties of the duration formatter\<close>

lemma str_nat_digit: "n < 10 \<Longrightarrow> str_nat n = [''0123456789'' ! n]"
  by (simp add: str_nat.simps)

lemma str_nat_two_digits:
  "10 \<le> n \<Longrightarrow> n < 100 \<Longrightarrow> str_nat n = [''0123456789'' ! (n div 10), ''0123456789'' ! (n mod 10)]"
proof -
  assume a: "10 \<le> n" and b: "n < 100"
  from b have "n div 10 < 10" by simp
  then have "str_nat (n div 10) = [''0123456789'' ! (n div 10)]"
    by (rule str_nat_digit)
  with a show ?thesis
    by (subst str_nat.simps) simp
qed

lemma hours_plural: "60 \<le> d \<Longrightarrow> (120 \<le> d) = (d div 60 \<noteq> (1::int))"
  by presburger

text \<open>
  C7: the formatter maps 45 to "45 minutes", 60 to "1 hour", 90 to "1 hour 30 minutes",
  120 to "2 hours" and 1 to "1 minute".
\<close>

theorem convert_duration_examples:
  "convert_duration 45 = ''45 minutes'' \<and>
   convert_duration 60 = ''1 hour'' \<and>
   convert_duration 90 = ''1 hour 30 minutes'' \<and>
   convert_duration 120 = ''2 hours'' \<and>
   convert_duration 1 = ''1 minute''"
  by (simp add: convert_duration_def str_int_def str_nat_digit str_nat_two_digits)

text \<open>
  C8: for every duration from 1 to 1440 minutes, the formatter emits the hour phrase iff
  the duration is at least 60 and the minute phrase iff the duration is not a multiple of
  60 (with one space between the two), and each unit word is singular exactly when its
  count (\<open>duration div 60\<close>, \<open>duration mod 60\<close>) is 1 and takes an "s" otherwise.
\<close>

theorem convert_duration_phrases:
  assumes "1 \<le> d" and "d \<le> 1440"
  shows "convert_duration d =
     (if 60 \<le> d then spec_unit_phrase (d div 60) ''hour'' else '''') @
     (if 60 \<le> d \<and> d mod 60 \<noteq> 0 then '' '' else '''') @
     (if d mod 60 \<noteq> 0 then spec_unit_phrase (d mod 60) ''minute'' else '''')"
  by (simp add: convert_duration_def spec_unit_phrase_def hours_plural)

theorem convert_duration_phrases_witness:
  "(1::int) \<le> 61 \<and> (61::int) \<le> 1440 \<and> convert_duration 61 = ''1 hour 1 minute'' \<and>
   (1::int) \<le> 1439 \<and> (1439::int) \<le> 1440 \<and> convert_duration 1439 = ''23 hours 59 minutes''"
  using convert_duration_phrases [of 61] convert_duration_phrases [of 1439]
  by (simp add: spec_unit_phrase_def str_int_def str_nat_digit str_nat_two_digits)

text \<open>
  C10: applied to 0, which the function does not guard against, the formatter returns
  the empty string and no "0 minutes" phrase.
\<close>

theorem convert_duration_zero:
  "convert_duration 0 = '''' \<and> convert_duration 0 \<noteq> ''0 minutes''"
  by (simp add: convert_duration_def)

end
